theory Spec2Isabelle
  imports Main "HOL-Library.Word"
begin

unbundle bit_operations_syntax

section \<open>Atomic words and the memory they live in\<close>

text \<open>
  The header \<^verbatim>\<open>atomic/riscv64/atomic.h\<close> fixes the C types on an LP64 target:
  \<^verbatim>\<open>u_char\<close> is 8 bits, \<^verbatim>\<open>u_short\<close> 16, \<^verbatim>\<open>u_int\<close> 32 and \<^verbatim>\<open>u_long\<close> 64;
  \<^verbatim>\<open>int\<close> is a signed 32-bit value.

  Memory is a heap split by the type of the object stored at an address: every
  atomic word is read and written at one width only. One call of a primitive is one
  indivisible step from heap to heap; the memory order given to a built-in constrains
  how steps of different threads may be observed, not what a single step computes.
\<close>

type_synonym addr = nat
type_synonym u_char = "8 word"
type_synonym u_short = "16 word"
type_synonym u_int = "32 word"
type_synonym u_long = "64 word"
type_synonym c_int = "32 word" \<comment> \<open>\<^verbatim>\<open>int\<close>: the 32 bits, read as two's complement by \<open>sint\<close>\<close>

type_synonym 'a cells = "addr \<Rightarrow> 'a word"

record heap =
  h8 :: "8 cells"
  h16 :: "16 cells"
  h32 :: "32 cells"
  h64 :: "64 cells"

datatype memorder = ATOMIC_RELAXED | ATOMIC_ACQUIRE | ATOMIC_RELEASE | ATOMIC_SEQ_CST

subsection \<open>The compiler's atomic built-ins\<close>

text \<open>
  The built-ins are type-generic: each works at the width of the object its pointer
  designates. \<^verbatim>\<open>__atomic_fetch_OP(ptr, val, memorder)\<close> performs
  \<^verbatim>\<open>{ tmp = *ptr; *ptr OP= val; return tmp; }\<close>.
\<close>

definition atomic_fetch_or ::
  "addr \<Rightarrow> 'a::len word \<Rightarrow> memorder \<Rightarrow> 'a cells \<Rightarrow> 'a word \<times> 'a cells" where
  "atomic_fetch_or ptr val mo m = (m ptr, m(ptr := m ptr OR val))"

definition atomic_fetch_and ::
  "addr \<Rightarrow> 'a::len word \<Rightarrow> memorder \<Rightarrow> 'a cells \<Rightarrow> 'a word \<times> 'a cells" where
  "atomic_fetch_and ptr val mo m = (m ptr, m(ptr := m ptr AND val))"

definition atomic_fetch_add ::
  "addr \<Rightarrow> 'a::len word \<Rightarrow> memorder \<Rightarrow> 'a cells \<Rightarrow> 'a word \<times> 'a cells" where
  "atomic_fetch_add ptr val mo m = (m ptr, m(ptr := m ptr + val))"

definition atomic_fetch_sub ::
  "addr \<Rightarrow> 'a::len word \<Rightarrow> memorder \<Rightarrow> 'a cells \<Rightarrow> 'a word \<times> 'a cells" where
  "atomic_fetch_sub ptr val mo m = (m ptr, m(ptr := m ptr - val))"

text \<open>
  \<^verbatim>\<open>__atomic_compare_exchange_n(ptr, expected, desired, weak, success, failure)\<close>
  with \<^verbatim>\<open>weak = 0\<close> (the strong variation, the only one the header uses): if
  \<^verbatim>\<open>*ptr == *expected\<close> it writes \<^verbatim>\<open>desired\<close> into \<^verbatim>\<open>*ptr\<close> and returns true;
  otherwise it writes the current \<^verbatim>\<open>*ptr\<close> into \<^verbatim>\<open>*expected\<close> and returns false.
  The object behind \<^verbatim>\<open>expected\<close> is passed in and handed back as the second
  component of the result.
\<close>

definition atomic_compare_exchange_n ::
  "addr \<Rightarrow> 'a::len word \<Rightarrow> 'a word \<Rightarrow> memorder \<Rightarrow> memorder \<Rightarrow> 'a cells
     \<Rightarrow> (bool \<times> 'a word) \<times> 'a cells" where
  "atomic_compare_exchange_n ptr expected desired succ fail m =
     (if m ptr = expected then ((True, expected), m(ptr := desired))
      else ((False, m ptr), m))"

text \<open>\<^verbatim>\<open>__atomic_exchange_n(ptr, val, memorder)\<close> writes \<^verbatim>\<open>val\<close> and returns the
  previous contents.\<close>

definition atomic_exchange_n ::
  "addr \<Rightarrow> 'a::len word \<Rightarrow> memorder \<Rightarrow> 'a cells \<Rightarrow> 'a word \<times> 'a cells" where
  "atomic_exchange_n ptr val mo m = (m ptr, m(ptr := val))"

text \<open>\<^verbatim>\<open>__atomic_load(ptr, ret, memorder)\<close> copies \<^verbatim>\<open>*ptr\<close> into \<^verbatim>\<open>*ret\<close>;
  \<^verbatim>\<open>__atomic_store(ptr, val, memorder)\<close> copies \<^verbatim>\<open>*val\<close> into \<^verbatim>\<open>*ptr\<close>.\<close>

definition atomic_load_builtin :: "addr \<Rightarrow> memorder \<Rightarrow> 'a::len cells \<Rightarrow> 'a word" where
  "atomic_load_builtin ptr mo m = m ptr"

definition atomic_store_builtin ::
  "addr \<Rightarrow> 'a::len word \<Rightarrow> memorder \<Rightarrow> 'a cells \<Rightarrow> 'a cells" where
  "atomic_store_builtin ptr val mo m = m(ptr := val)"

subsection \<open>The instances of \<^verbatim>\<open>ATOMIC_OP\<close>\<close>

text \<open>
  \<^verbatim>\<open>ATOMIC_OP(NAME, TYPE, C_TYPE, BUILTIN_OP, ADJ_V)\<close> expands to
  \<^verbatim>\<open>void atomic_NAME_TYPE(volatile u_TYPE *p, u_TYPE v)
  { __atomic_fetch_BUILTIN_OP((volatile C_TYPE *)p, (C_TYPE)(ADJ_V), __ATOMIC_SEQ_CST); }\<close>.
  The value the built-in returns is dropped. In \<^verbatim>\<open>~v\<close> an operand of type
  \<^verbatim>\<open>u_char\<close> or \<^verbatim>\<open>u_short\<close> is first promoted to \<^verbatim>\<open>int\<close>; the cast to
  \<^verbatim>\<open>C_TYPE\<close> then truncates. At \<^verbatim>\<open>u_int\<close> and \<^verbatim>\<open>u_long\<close> no promotion happens.
\<close>

definition atomic_set_char :: "addr \<Rightarrow> u_char \<Rightarrow> heap \<Rightarrow> heap" where
  "atomic_set_char p v h = h\<lparr>h8 := snd (atomic_fetch_or p v ATOMIC_SEQ_CST (h8 h))\<rparr>"

definition atomic_clear_char :: "addr \<Rightarrow> u_char \<Rightarrow> heap \<Rightarrow> heap" where
  "atomic_clear_char p v h =
     h\<lparr>h8 := snd (atomic_fetch_and p (ucast (NOT (ucast v :: c_int))) ATOMIC_SEQ_CST (h8 h))\<rparr>"

definition atomic_add_char :: "addr \<Rightarrow> u_char \<Rightarrow> heap \<Rightarrow> heap" where
  "atomic_add_char p v h = h\<lparr>h8 := snd (atomic_fetch_add p v ATOMIC_SEQ_CST (h8 h))\<rparr>"

definition atomic_subtract_char :: "addr \<Rightarrow> u_char \<Rightarrow> heap \<Rightarrow> heap" where
  "atomic_subtract_char p v h = h\<lparr>h8 := snd (atomic_fetch_sub p v ATOMIC_SEQ_CST (h8 h))\<rparr>"

definition atomic_set_short :: "addr \<Rightarrow> u_short \<Rightarrow> heap \<Rightarrow> heap" where
  "atomic_set_short p v h = h\<lparr>h16 := snd (atomic_fetch_or p v ATOMIC_SEQ_CST (h16 h))\<rparr>"

definition atomic_clear_short :: "addr \<Rightarrow> u_short \<Rightarrow> heap \<Rightarrow> heap" where
  "atomic_clear_short p v h =
     h\<lparr>h16 := snd (atomic_fetch_and p (ucast (NOT (ucast v :: c_int))) ATOMIC_SEQ_CST (h16 h))\<rparr>"

definition atomic_add_short :: "addr \<Rightarrow> u_short \<Rightarrow> heap \<Rightarrow> heap" where
  "atomic_add_short p v h = h\<lparr>h16 := snd (atomic_fetch_add p v ATOMIC_SEQ_CST (h16 h))\<rparr>"

definition atomic_subtract_short :: "addr \<Rightarrow> u_short \<Rightarrow> heap \<Rightarrow> heap" where
  "atomic_subtract_short p v h = h\<lparr>h16 := snd (atomic_fetch_sub p v ATOMIC_SEQ_CST (h16 h))\<rparr>"

definition atomic_set_int :: "addr \<Rightarrow> u_int \<Rightarrow> heap \<Rightarrow> heap" where
  "atomic_set_int p v h = h\<lparr>h32 := snd (atomic_fetch_or p v ATOMIC_SEQ_CST (h32 h))\<rparr>"

definition atomic_clear_int :: "addr \<Rightarrow> u_int \<Rightarrow> heap \<Rightarrow> heap" where
  "atomic_clear_int p v h = h\<lparr>h32 := snd (atomic_fetch_and p (NOT v) ATOMIC_SEQ_CST (h32 h))\<rparr>"

definition atomic_add_int :: "addr \<Rightarrow> u_int \<Rightarrow> heap \<Rightarrow> heap" where
  "atomic_add_int p v h = h\<lparr>h32 := snd (atomic_fetch_add p v ATOMIC_SEQ_CST (h32 h))\<rparr>"

definition atomic_subtract_int :: "addr \<Rightarrow> u_int \<Rightarrow> heap \<Rightarrow> heap" where
  "atomic_subtract_int p v h = h\<lparr>h32 := snd (atomic_fetch_sub p v ATOMIC_SEQ_CST (h32 h))\<rparr>"

definition atomic_set_long :: "addr \<Rightarrow> u_long \<Rightarrow> heap \<Rightarrow> heap" where
  "atomic_set_long p v h = h\<lparr>h64 := snd (atomic_fetch_or p v ATOMIC_SEQ_CST (h64 h))\<rparr>"

definition atomic_clear_long :: "addr \<Rightarrow> u_long \<Rightarrow> heap \<Rightarrow> heap" where
  "atomic_clear_long p v h = h\<lparr>h64 := snd (atomic_fetch_and p (NOT v) ATOMIC_SEQ_CST (h64 h))\<rparr>"

definition atomic_add_long :: "addr \<Rightarrow> u_long \<Rightarrow> heap \<Rightarrow> heap" where
  "atomic_add_long p v h = h\<lparr>h64 := snd (atomic_fetch_add p v ATOMIC_SEQ_CST (h64 h))\<rparr>"

definition atomic_subtract_long :: "addr \<Rightarrow> u_long \<Rightarrow> heap \<Rightarrow> heap" where
  "atomic_subtract_long p v h = h\<lparr>h64 := snd (atomic_fetch_sub p v ATOMIC_SEQ_CST (h64 h))\<rparr>"

subsection \<open>Compare-and-swap\<close>

text \<open>
  \<^verbatim>\<open>atomic_cmpset_int(dst, exp, src)\<close> copies its parameter \<^verbatim>\<open>exp\<close> into the local
  \<^verbatim>\<open>expected\<close>, hands the address of that local to the built-in and returns the
  built-in's truth value as an \<^verbatim>\<open>int\<close>. The variables of the call are kept in a
  record so that their final values can be inspected; the function proper returns only
  what a caller can see: the \<^verbatim>\<open>int\<close> and the heap.
\<close>

record 'w cmpset_vars =
  var_exp :: 'w
  var_src :: 'w
  var_expected :: 'w

definition cmpset_body ::
  "addr \<Rightarrow> 'a::len word cmpset_vars \<Rightarrow> 'a cells
     \<Rightarrow> (c_int \<times> 'a word cmpset_vars) \<times> 'a cells" where
  "cmpset_body dst vs m =
     (let ((ok, expected'), m') =
            atomic_compare_exchange_n dst (var_expected vs) (var_src vs)
              ATOMIC_SEQ_CST ATOMIC_RELAXED m
      in ((if ok then 1 else 0, vs\<lparr>var_expected := expected'\<rparr>), m'))"

definition atomic_cmpset_int_vars ::
  "addr \<Rightarrow> u_int \<Rightarrow> u_int \<Rightarrow> heap \<Rightarrow> (c_int \<times> u_int cmpset_vars) \<times> heap" where
  "atomic_cmpset_int_vars dst exp src h =
     (let (r, m') = cmpset_body dst \<lparr>var_exp = exp, var_src = src, var_expected = exp\<rparr> (h32 h)
      in (r, h\<lparr>h32 := m'\<rparr>))"

definition atomic_cmpset_int :: "addr \<Rightarrow> u_int \<Rightarrow> u_int \<Rightarrow> heap \<Rightarrow> c_int \<times> heap" where
  "atomic_cmpset_int dst exp src h =
     (let ((r, vs), h') = atomic_cmpset_int_vars dst exp src h in (r, h'))"

definition atomic_cmpset_long_vars ::
  "addr \<Rightarrow> u_long \<Rightarrow> u_long \<Rightarrow> heap \<Rightarrow> (c_int \<times> u_long cmpset_vars) \<times> heap" where
  "atomic_cmpset_long_vars dst exp src h =
     (let (r, m') = cmpset_body dst \<lparr>var_exp = exp, var_src = src, var_expected = exp\<rparr> (h64 h)
      in (r, h\<lparr>h64 := m'\<rparr>))"

definition atomic_cmpset_long :: "addr \<Rightarrow> u_long \<Rightarrow> u_long \<Rightarrow> heap \<Rightarrow> c_int \<times> heap" where
  "atomic_cmpset_long dst exp src h =
     (let ((r, vs), h') = atomic_cmpset_long_vars dst exp src h in (r, h'))"

subsection \<open>Fetch-and-add, fetch-and-subtract\<close>

definition atomic_fetchadd_int :: "addr \<Rightarrow> u_int \<Rightarrow> heap \<Rightarrow> u_int \<times> heap" where
  "atomic_fetchadd_int p v h =
     (let (old, m') = atomic_fetch_add p v ATOMIC_SEQ_CST (h32 h) in (old, h\<lparr>h32 := m'\<rparr>))"

text \<open>
  \<^verbatim>\<open>atomic_fetchsubtract_int(p, v)\<close> takes a signed \<^verbatim>\<open>int v\<close> and passes
  \<^verbatim>\<open>(u_int)(-v)\<close>: the negation is evaluated in type \<^verbatim>\<open>int\<close>, before the conversion.
  The compiled code negates in two's complement, so that the most negative \<^verbatim>\<open>int\<close> is
  its own negation; that is \<open>-\<close> on the 32 bits. Converting an \<^verbatim>\<open>int\<close> to
  \<^verbatim>\<open>u_int\<close> keeps its 32 bits.
\<close>

definition INT_MIN :: c_int where
  "INT_MIN = - 2147483648"

definition atomic_fetchsubtract_int :: "addr \<Rightarrow> c_int \<Rightarrow> heap \<Rightarrow> u_int \<times> heap" where
  "atomic_fetchsubtract_int p v h =
     (let (old, m') = atomic_fetch_add p (- v) ATOMIC_SEQ_CST (h32 h) in (old, h\<lparr>h32 := m'\<rparr>))"

subsection \<open>Load-acquire and store-release\<close>

definition atomic_load_acq_char :: "addr \<Rightarrow> heap \<Rightarrow> u_char" where
  "atomic_load_acq_char p h = atomic_load_builtin p ATOMIC_ACQUIRE (h8 h)"

definition atomic_load_acq_short :: "addr \<Rightarrow> heap \<Rightarrow> u_short" where
  "atomic_load_acq_short p h = atomic_load_builtin p ATOMIC_ACQUIRE (h16 h)"

definition atomic_load_acq_int :: "addr \<Rightarrow> heap \<Rightarrow> u_int" where
  "atomic_load_acq_int p h = atomic_load_builtin p ATOMIC_ACQUIRE (h32 h)"

definition atomic_load_acq_long :: "addr \<Rightarrow> heap \<Rightarrow> u_long" where
  "atomic_load_acq_long p h = atomic_load_builtin p ATOMIC_ACQUIRE (h64 h)"

definition atomic_store_rel_char :: "addr \<Rightarrow> u_char \<Rightarrow> heap \<Rightarrow> heap" where
  "atomic_store_rel_char p v h = h\<lparr>h8 := atomic_store_builtin p v ATOMIC_RELEASE (h8 h)\<rparr>"

definition atomic_store_rel_short :: "addr \<Rightarrow> u_short \<Rightarrow> heap \<Rightarrow> heap" where
  "atomic_store_rel_short p v h = h\<lparr>h16 := atomic_store_builtin p v ATOMIC_RELEASE (h16 h)\<rparr>"

definition atomic_store_rel_int :: "addr \<Rightarrow> u_int \<Rightarrow> heap \<Rightarrow> heap" where
  "atomic_store_rel_int p v h = h\<lparr>h32 := atomic_store_builtin p v ATOMIC_RELEASE (h32 h)\<rparr>"

definition atomic_store_rel_long :: "addr \<Rightarrow> u_long \<Rightarrow> heap \<Rightarrow> heap" where
  "atomic_store_rel_long p v h = h\<lparr>h64 := atomic_store_builtin p v ATOMIC_RELEASE (h64 h)\<rparr>"

subsection \<open>Read-and-clear\<close>

definition atomic_readandclear_int :: "addr \<Rightarrow> heap \<Rightarrow> u_int \<times> heap" where
  "atomic_readandclear_int p h =
     (let (old, m') = atomic_exchange_n p 0 ATOMIC_SEQ_CST (h32 h) in (old, h\<lparr>h32 := m'\<rparr>))"

definition atomic_readandclear_long :: "addr \<Rightarrow> heap \<Rightarrow> u_long \<times> heap" where
  "atomic_readandclear_long p h =
     (let (old, m') = atomic_exchange_n p 0 ATOMIC_SEQ_CST (h64 h) in (old, h\<lparr>h64 := m'\<rparr>))"

section \<open>The names the header declares\<close>

text \<open>
  Every name of the header has the form \<^verbatim>\<open>atomic_OP_TYPE\<close> or
  \<^verbatim>\<open>atomic_OP_ORD_TYPE\<close>, with \<^verbatim>\<open>ORD\<close> one of \<^verbatim>\<open>acq\<close>, \<^verbatim>\<open>rel\<close> and
  \<^verbatim>\<open>TYPE\<close> one of \<^verbatim>\<open>char short int long 8 16 32 64 ptr\<close>. An identifier is kept
  as its three parts; \<open>ident_name\<close> prints it as the header spells it.
\<close>

datatype opn = Op_set | Op_clear | Op_add | Op_subtract | Op_cmpset | Op_fetchadd
  | Op_fetchsubtract | Op_load | Op_store | Op_readandclear

datatype ordsfx = Plain | Acq | Rel

datatype tysfx = T_char | T_short | T_int | T_long | T_8 | T_16 | T_32 | T_64 | T_ptr

type_synonym ident = "opn \<times> ordsfx \<times> tysfx"

fun opn_name :: "opn \<Rightarrow> string" where
  "opn_name Op_set = ''set''"
| "opn_name Op_clear = ''clear''"
| "opn_name Op_add = ''add''"
| "opn_name Op_subtract = ''subtract''"
| "opn_name Op_cmpset = ''cmpset''"
| "opn_name Op_fetchadd = ''fetchadd''"
| "opn_name Op_fetchsubtract = ''fetchsubtract''"
| "opn_name Op_load = ''load''"
| "opn_name Op_store = ''store''"
| "opn_name Op_readandclear = ''readandclear''"

fun ordsfx_name :: "ordsfx \<Rightarrow> string" where
  "ordsfx_name Plain = []"
| "ordsfx_name Acq = ''_acq''"
| "ordsfx_name Rel = ''_rel''"

fun tysfx_name :: "tysfx \<Rightarrow> string" where
  "tysfx_name T_char = ''char''"
| "tysfx_name T_short = ''short''"
| "tysfx_name T_int = ''int''"
| "tysfx_name T_long = ''long''"
| "tysfx_name T_8 = ''8''"
| "tysfx_name T_16 = ''16''"
| "tysfx_name T_32 = ''32''"
| "tysfx_name T_64 = ''64''"
| "tysfx_name T_ptr = ''ptr''"

fun ident_name :: "ident \<Rightarrow> string" where
  "ident_name (f, ord, ty) =
     ''atomic_'' @ opn_name f @ ordsfx_name ord @ ''_'' @ tysfx_name ty"

subsection \<open>The object-like macros\<close>

text \<open>Each \<^verbatim>\<open>#define NAME REPLACEMENT\<close> of the header (lines 171 to 302), in the
  order of the file; any other name is no macro.\<close>

definition macro_def :: "ident \<Rightarrow> ident option" where
  "macro_def x = (case x of
     \<comment> \<open>lines 171-178\<close>
       (Op_set, Acq, T_char) \<Rightarrow> Some (Op_set, Plain, T_char)
     | (Op_set, Rel, T_char) \<Rightarrow> Some (Op_set, Plain, T_char)
     | (Op_clear, Acq, T_char) \<Rightarrow> Some (Op_clear, Plain, T_char)
     | (Op_clear, Rel, T_char) \<Rightarrow> Some (Op_clear, Plain, T_char)
     | (Op_add, Acq, T_char) \<Rightarrow> Some (Op_add, Plain, T_char)
     | (Op_add, Rel, T_char) \<Rightarrow> Some (Op_add, Plain, T_char)
     | (Op_subtract, Acq, T_char) \<Rightarrow> Some (Op_subtract, Plain, T_char)
     | (Op_subtract, Rel, T_char) \<Rightarrow> Some (Op_subtract, Plain, T_char)
     \<comment> \<open>lines 180-187\<close>
     | (Op_set, Acq, T_short) \<Rightarrow> Some (Op_set, Plain, T_short)
     | (Op_set, Rel, T_short) \<Rightarrow> Some (Op_set, Plain, T_short)
     | (Op_clear, Acq, T_short) \<Rightarrow> Some (Op_clear, Plain, T_short)
     | (Op_clear, Rel, T_short) \<Rightarrow> Some (Op_clear, Plain, T_short)
     | (Op_add, Acq, T_short) \<Rightarrow> Some (Op_add, Plain, T_short)
     | (Op_add, Rel, T_short) \<Rightarrow> Some (Op_add, Plain, T_short)
     | (Op_subtract, Acq, T_short) \<Rightarrow> Some (Op_subtract, Plain, T_short)
     | (Op_subtract, Rel, T_short) \<Rightarrow> Some (Op_subtract, Plain, T_short)
     \<comment> \<open>lines 189-198\<close>
     | (Op_set, Acq, T_int) \<Rightarrow> Some (Op_set, Plain, T_int)
     | (Op_set, Rel, T_int) \<Rightarrow> Some (Op_set, Plain, T_int)
     | (Op_clear, Acq, T_int) \<Rightarrow> Some (Op_clear, Plain, T_int)
     | (Op_clear, Rel, T_int) \<Rightarrow> Some (Op_clear, Plain, T_int)
     | (Op_add, Acq, T_int) \<Rightarrow> Some (Op_add, Plain, T_int)
     | (Op_add, Rel, T_int) \<Rightarrow> Some (Op_add, Plain, T_int)
     | (Op_subtract, Acq, T_int) \<Rightarrow> Some (Op_subtract, Plain, T_int)
     | (Op_subtract, Rel, T_int) \<Rightarrow> Some (Op_subtract, Plain, T_int)
     | (Op_cmpset, Acq, T_int) \<Rightarrow> Some (Op_cmpset, Plain, T_int)
     | (Op_cmpset, Rel, T_int) \<Rightarrow> Some (Op_cmpset, Plain, T_int)
     \<comment> \<open>lines 200-209\<close>
     | (Op_set, Acq, T_long) \<Rightarrow> Some (Op_set, Plain, T_long)
     | (Op_set, Rel, T_long) \<Rightarrow> Some (Op_set, Plain, T_long)
     | (Op_clear, Acq, T_long) \<Rightarrow> Some (Op_clear, Plain, T_long)
     | (Op_clear, Rel, T_long) \<Rightarrow> Some (Op_clear, Plain, T_long)
     | (Op_add, Acq, T_long) \<Rightarrow> Some (Op_add, Plain, T_long)
     | (Op_add, Rel, T_long) \<Rightarrow> Some (Op_add, Plain, T_long)
     | (Op_subtract, Acq, T_long) \<Rightarrow> Some (Op_subtract, Plain, T_long)
     | (Op_subtract, Rel, T_long) \<Rightarrow> Some (Op_subtract, Plain, T_long)
     | (Op_cmpset, Acq, T_long) \<Rightarrow> Some (Op_cmpset, Plain, T_long)
     | (Op_cmpset, Rel, T_long) \<Rightarrow> Some (Op_cmpset, Plain, T_long)
     \<comment> \<open>lines 215-228\<close>
     | (Op_set, Plain, T_8) \<Rightarrow> Some (Op_set, Plain, T_char)
     | (Op_set, Acq, T_8) \<Rightarrow> Some (Op_set, Acq, T_char)
     | (Op_set, Rel, T_8) \<Rightarrow> Some (Op_set, Rel, T_char)
     | (Op_clear, Plain, T_8) \<Rightarrow> Some (Op_clear, Plain, T_char)
     | (Op_clear, Acq, T_8) \<Rightarrow> Some (Op_clear, Acq, T_char)
     | (Op_clear, Rel, T_8) \<Rightarrow> Some (Op_clear, Rel, T_char)
     | (Op_add, Plain, T_8) \<Rightarrow> Some (Op_add, Plain, T_char)
     | (Op_add, Acq, T_8) \<Rightarrow> Some (Op_add, Acq, T_char)
     | (Op_add, Rel, T_8) \<Rightarrow> Some (Op_add, Rel, T_char)
     | (Op_subtract, Plain, T_8) \<Rightarrow> Some (Op_subtract, Plain, T_char)
     | (Op_subtract, Acq, T_8) \<Rightarrow> Some (Op_subtract, Acq, T_char)
     | (Op_subtract, Rel, T_8) \<Rightarrow> Some (Op_subtract, Rel, T_char)
     | (Op_load, Acq, T_8) \<Rightarrow> Some (Op_load, Acq, T_char)
     | (Op_store, Rel, T_8) \<Rightarrow> Some (Op_store, Rel, T_char)
     \<comment> \<open>lines 230-243\<close>
     | (Op_set, Plain, T_16) \<Rightarrow> Some (Op_set, Plain, T_short)
     | (Op_set, Acq, T_16) \<Rightarrow> Some (Op_set, Acq, T_short)
     | (Op_set, Rel, T_16) \<Rightarrow> Some (Op_set, Rel, T_short)
     | (Op_clear, Plain, T_16) \<Rightarrow> Some (Op_clear, Plain, T_short)
     | (Op_clear, Acq, T_16) \<Rightarrow> Some (Op_clear, Acq, T_short)
     | (Op_clear, Rel, T_16) \<Rightarrow> Some (Op_clear, Rel, T_short)
     | (Op_add, Plain, T_16) \<Rightarrow> Some (Op_add, Plain, T_short)
     | (Op_add, Acq, T_16) \<Rightarrow> Some (Op_add, Acq, T_short)
     | (Op_add, Rel, T_16) \<Rightarrow> Some (Op_add, Rel, T_short)
     | (Op_subtract, Plain, T_16) \<Rightarrow> Some (Op_subtract, Plain, T_short)
     | (Op_subtract, Acq, T_16) \<Rightarrow> Some (Op_subtract, Acq, T_short)
     | (Op_subtract, Rel, T_16) \<Rightarrow> Some (Op_subtract, Rel, T_short)
     | (Op_load, Acq, T_16) \<Rightarrow> Some (Op_load, Acq, T_short)
     | (Op_store, Rel, T_16) \<Rightarrow> Some (Op_store, Rel, T_short)
     \<comment> \<open>lines 245-264\<close>
     | (Op_set, Plain, T_32) \<Rightarrow> Some (Op_set, Plain, T_int)
     | (Op_set, Acq, T_32) \<Rightarrow> Some (Op_set, Acq, T_int)
     | (Op_set, Rel, T_32) \<Rightarrow> Some (Op_set, Rel, T_int)
     | (Op_clear, Plain, T_32) \<Rightarrow> Some (Op_clear, Plain, T_int)
     | (Op_clear, Acq, T_32) \<Rightarrow> Some (Op_clear, Acq, T_int)
     | (Op_clear, Rel, T_32) \<Rightarrow> Some (Op_clear, Rel, T_int)
     | (Op_add, Plain, T_32) \<Rightarrow> Some (Op_add, Plain, T_int)
     | (Op_add, Acq, T_32) \<Rightarrow> Some (Op_add, Acq, T_int)
     | (Op_add, Rel, T_32) \<Rightarrow> Some (Op_add, Rel, T_int)
     | (Op_subtract, Plain, T_32) \<Rightarrow> Some (Op_subtract, Plain, T_int)
     | (Op_subtract, Acq, T_32) \<Rightarrow> Some (Op_subtract, Acq, T_int)
     | (Op_subtract, Rel, T_32) \<Rightarrow> Some (Op_subtract, Rel, T_int)
     | (Op_load, Acq, T_32) \<Rightarrow> Some (Op_load, Acq, T_int)
     | (Op_store, Rel, T_32) \<Rightarrow> Some (Op_store, Rel, T_int)
     | (Op_cmpset, Plain, T_32) \<Rightarrow> Some (Op_cmpset, Plain, T_int)
     | (Op_cmpset, Acq, T_32) \<Rightarrow> Some (Op_cmpset, Acq, T_int)
     | (Op_cmpset, Rel, T_32) \<Rightarrow> Some (Op_cmpset, Rel, T_int)
     | (Op_readandclear, Plain, T_32) \<Rightarrow> Some (Op_readandclear, Plain, T_int)
     | (Op_fetchadd, Plain, T_32) \<Rightarrow> Some (Op_fetchadd, Plain, T_int)
     | (Op_fetchsubtract, Plain, T_32) \<Rightarrow> Some (Op_fetchsubtract, Plain, T_int)
     \<comment> \<open>lines 266-283\<close>
     | (Op_set, Plain, T_64) \<Rightarrow> Some (Op_set, Plain, T_long)
     | (Op_set, Acq, T_64) \<Rightarrow> Some (Op_set, Acq, T_long)
     | (Op_set, Rel, T_64) \<Rightarrow> Some (Op_set, Rel, T_long)
     | (Op_clear, Plain, T_64) \<Rightarrow> Some (Op_clear, Plain, T_long)
     | (Op_clear, Acq, T_64) \<Rightarrow> Some (Op_clear, Acq, T_long)
     | (Op_clear, Rel, T_64) \<Rightarrow> Some (Op_clear, Rel, T_long)
     | (Op_add, Plain, T_64) \<Rightarrow> Some (Op_add, Plain, T_long)
     | (Op_add, Acq, T_64) \<Rightarrow> Some (Op_add, Acq, T_long)
     | (Op_add, Rel, T_64) \<Rightarrow> Some (Op_add, Rel, T_long)
     | (Op_subtract, Plain, T_64) \<Rightarrow> Some (Op_subtract, Plain, T_long)
     | (Op_subtract, Acq, T_64) \<Rightarrow> Some (Op_subtract, Acq, T_long)
     | (Op_subtract, Rel, T_64) \<Rightarrow> Some (Op_subtract, Rel, T_long)
     | (Op_load, Acq, T_64) \<Rightarrow> Some (Op_load, Acq, T_long)
     | (Op_store, Rel, T_64) \<Rightarrow> Some (Op_store, Rel, T_long)
     | (Op_cmpset, Plain, T_64) \<Rightarrow> Some (Op_cmpset, Plain, T_long)
     | (Op_cmpset, Acq, T_64) \<Rightarrow> Some (Op_cmpset, Acq, T_long)
     | (Op_cmpset, Rel, T_64) \<Rightarrow> Some (Op_cmpset, Rel, T_long)
     | (Op_readandclear, Plain, T_64) \<Rightarrow> Some (Op_readandclear, Plain, T_long)
     \<comment> \<open>lines 285-302\<close>
     | (Op_set, Plain, T_ptr) \<Rightarrow> Some (Op_set, Plain, T_long)
     | (Op_set, Acq, T_ptr) \<Rightarrow> Some (Op_set, Acq, T_long)
     | (Op_set, Rel, T_ptr) \<Rightarrow> Some (Op_set, Rel, T_long)
     | (Op_clear, Plain, T_ptr) \<Rightarrow> Some (Op_clear, Plain, T_long)
     | (Op_clear, Acq, T_ptr) \<Rightarrow> Some (Op_clear, Acq, T_long)
     | (Op_clear, Rel, T_ptr) \<Rightarrow> Some (Op_clear, Rel, T_long)
     | (Op_add, Plain, T_ptr) \<Rightarrow> Some (Op_add, Plain, T_long)
     | (Op_add, Acq, T_ptr) \<Rightarrow> Some (Op_add, Acq, T_long)
     | (Op_add, Rel, T_ptr) \<Rightarrow> Some (Op_add, Rel, T_long)
     | (Op_subtract, Plain, T_ptr) \<Rightarrow> Some (Op_subtract, Plain, T_long)
     | (Op_subtract, Acq, T_ptr) \<Rightarrow> Some (Op_subtract, Acq, T_long)
     | (Op_subtract, Rel, T_ptr) \<Rightarrow> Some (Op_subtract, Rel, T_long)
     | (Op_load, Acq, T_ptr) \<Rightarrow> Some (Op_load, Acq, T_long)
     | (Op_store, Rel, T_ptr) \<Rightarrow> Some (Op_store, Rel, T_long)
     | (Op_cmpset, Plain, T_ptr) \<Rightarrow> Some (Op_cmpset, Plain, T_long)
     | (Op_cmpset, Acq, T_ptr) \<Rightarrow> Some (Op_cmpset, Acq, T_long)
     | (Op_cmpset, Rel, T_ptr) \<Rightarrow> Some (Op_cmpset, Rel, T_long)
     | (Op_readandclear, Plain, T_ptr) \<Rightarrow> Some (Op_readandclear, Plain, T_long)
     | _ \<Rightarrow> None)"

text \<open>
  The preprocessor replaces a macro name by its replacement and scans the result
  again, until the name is no macro. Each replacement consumes one unit of fuel; the
  header defines 120 macros and none can be replaced twice in one chain, so 120 units
  are enough.
\<close>

fun expand :: "nat \<Rightarrow> ident \<Rightarrow> ident" where
  "expand 0 x = x"
| "expand (Suc n) x = (case macro_def x of None \<Rightarrow> x | Some y \<Rightarrow> expand n y)"

definition preprocess :: "ident \<Rightarrow> ident" where
  "preprocess x = expand 120 x"

subsection \<open>The functions, as values\<close>

text \<open>
  A call passes a list of typed values and may return one. A call of a name that is
  not declared does not compile, nor does a call with the wrong number of arguments,
  with an integer where the pointer is expected or with a pointer where an integer is
  expected; these are the errors of a call.

  An integer argument of another integer type is converted to the type of the
  parameter, as by assignment: a value of an unsigned type is extended with zeros or
  cut to the low bits, an \<^verbatim>\<open>int\<close> is extended with its sign or cut to the low bits.
\<close>

datatype error = Undeclared | Bad_arguments

datatype val = V_ptr addr | V_char u_char | V_short u_short | V_int u_int | V_long u_long
  | V_sint c_int

type_synonym func = "val list \<Rightarrow> heap \<Rightarrow> error + (val option \<times> heap)"

fun convert :: "val \<Rightarrow> 'a::len word option" where
  "convert (V_char w) = Some (ucast w)"
| "convert (V_short w) = Some (ucast w)"
| "convert (V_int w) = Some (ucast w)"
| "convert (V_long w) = Some (ucast w)"
| "convert (V_sint w) = Some (scast w)"
| "convert (V_ptr p) = None"

definition void_func :: "(addr \<Rightarrow> 'a::len word \<Rightarrow> heap \<Rightarrow> heap) \<Rightarrow> func" where
  "void_func f args h =
     (case args of
        [V_ptr p, a] \<Rightarrow>
          (case convert a of
             Some v \<Rightarrow> Inr (None, f p v h)
           | None \<Rightarrow> Inl Bad_arguments)
      | _ \<Rightarrow> Inl Bad_arguments)"

definition void_char :: "(addr \<Rightarrow> u_char \<Rightarrow> heap \<Rightarrow> heap) \<Rightarrow> func" where
  "void_char = void_func"

definition void_short :: "(addr \<Rightarrow> u_short \<Rightarrow> heap \<Rightarrow> heap) \<Rightarrow> func" where
  "void_short = void_func"

definition void_int :: "(addr \<Rightarrow> u_int \<Rightarrow> heap \<Rightarrow> heap) \<Rightarrow> func" where
  "void_int = void_func"

definition void_long :: "(addr \<Rightarrow> u_long \<Rightarrow> heap \<Rightarrow> heap) \<Rightarrow> func" where
  "void_long = void_func"

definition cmpset_func ::
  "(addr \<Rightarrow> 'a::len word \<Rightarrow> 'a word \<Rightarrow> heap \<Rightarrow> c_int \<times> heap) \<Rightarrow> func" where
  "cmpset_func f args h =
     (case args of
        [V_ptr dst, a, b] \<Rightarrow>
          (case (convert a, convert b) of
             (Some exp, Some src) \<Rightarrow>
               (let (r, h') = f dst exp src h in Inr (Some (V_sint r), h'))
           | _ \<Rightarrow> Inl Bad_arguments)
      | _ \<Rightarrow> Inl Bad_arguments)"

definition cmpset_int_func :: func where
  "cmpset_int_func = cmpset_func atomic_cmpset_int"

definition cmpset_long_func :: func where
  "cmpset_long_func = cmpset_func atomic_cmpset_long"

definition fetch_func :: "(addr \<Rightarrow> 32 word \<Rightarrow> heap \<Rightarrow> u_int \<times> heap) \<Rightarrow> func" where
  "fetch_func f args h =
     (case args of
        [V_ptr p, a] \<Rightarrow>
          (case convert a of
             Some v \<Rightarrow> (let (r, h') = f p v h in Inr (Some (V_int r), h'))
           | None \<Rightarrow> Inl Bad_arguments)
      | _ \<Rightarrow> Inl Bad_arguments)"

definition fetchadd_int_func :: func where
  "fetchadd_int_func = fetch_func atomic_fetchadd_int"

definition fetchsubtract_int_func :: func where
  "fetchsubtract_int_func = fetch_func atomic_fetchsubtract_int"

definition load_func :: "('w \<Rightarrow> val) \<Rightarrow> (addr \<Rightarrow> heap \<Rightarrow> 'w) \<Rightarrow> func" where
  "load_func mk f args h =
     (case args of [V_ptr p] \<Rightarrow> Inr (Some (mk (f p h)), h) | _ \<Rightarrow> Inl Bad_arguments)"

definition readandclear_func :: "('w \<Rightarrow> val) \<Rightarrow> (addr \<Rightarrow> heap \<Rightarrow> 'w \<times> heap) \<Rightarrow> func" where
  "readandclear_func mk f args h =
     (case args of
        [V_ptr p] \<Rightarrow> (let (r, h') = f p h in Inr (Some (mk r), h'))
      | _ \<Rightarrow> Inl Bad_arguments)"

text \<open>The thirty functions the header defines, in the order of the file.\<close>

definition function_defs :: "(ident \<times> func) list" where
  "function_defs = [
     ((Op_set, Plain, T_char), void_char atomic_set_char),
     ((Op_clear, Plain, T_char), void_char atomic_clear_char),
     ((Op_add, Plain, T_char), void_char atomic_add_char),
     ((Op_subtract, Plain, T_char), void_char atomic_subtract_char),
     ((Op_set, Plain, T_short), void_short atomic_set_short),
     ((Op_clear, Plain, T_short), void_short atomic_clear_short),
     ((Op_add, Plain, T_short), void_short atomic_add_short),
     ((Op_subtract, Plain, T_short), void_short atomic_subtract_short),
     ((Op_set, Plain, T_int), void_int atomic_set_int),
     ((Op_clear, Plain, T_int), void_int atomic_clear_int),
     ((Op_add, Plain, T_int), void_int atomic_add_int),
     ((Op_subtract, Plain, T_int), void_int atomic_subtract_int),
     ((Op_set, Plain, T_long), void_long atomic_set_long),
     ((Op_clear, Plain, T_long), void_long atomic_clear_long),
     ((Op_add, Plain, T_long), void_long atomic_add_long),
     ((Op_subtract, Plain, T_long), void_long atomic_subtract_long),
     ((Op_cmpset, Plain, T_int), cmpset_int_func),
     ((Op_cmpset, Plain, T_long), cmpset_long_func),
     ((Op_fetchadd, Plain, T_int), fetchadd_int_func),
     ((Op_fetchsubtract, Plain, T_int), fetchsubtract_int_func),
     ((Op_load, Acq, T_char), load_func V_char atomic_load_acq_char),
     ((Op_load, Acq, T_short), load_func V_short atomic_load_acq_short),
     ((Op_load, Acq, T_int), load_func V_int atomic_load_acq_int),
     ((Op_load, Acq, T_long), load_func V_long atomic_load_acq_long),
     ((Op_store, Rel, T_char), void_char atomic_store_rel_char),
     ((Op_store, Rel, T_short), void_short atomic_store_rel_short),
     ((Op_store, Rel, T_int), void_int atomic_store_rel_int),
     ((Op_store, Rel, T_long), void_long atomic_store_rel_long),
     ((Op_readandclear, Plain, T_int), readandclear_func V_int atomic_readandclear_int),
     ((Op_readandclear, Plain, T_long), readandclear_func V_long atomic_readandclear_long)
   ]"

definition declared :: "ident \<Rightarrow> bool" where
  "declared x = (preprocess x \<in> set (map fst function_defs))"

definition call :: "ident \<Rightarrow> func" where
  "call x args h =
     (case map_of function_defs (preprocess x) of
        None \<Rightarrow> Inl Undeclared
      | Some f \<Rightarrow> f args h)"

text \<open>
  The entry point of an interface operation at a type suffix: load exists only as
  \<^verbatim>\<open>atomic_load_acq_TYPE\<close> and store only as \<^verbatim>\<open>atomic_store_rel_TYPE\<close>; every other
  operation has an unsuffixed name.
\<close>

fun entry :: "opn \<Rightarrow> tysfx \<Rightarrow> ident" where
  "entry Op_load ty = (Op_load, Acq, ty)"
| "entry Op_store ty = (Op_store, Rel, ty)"
| "entry f ty = (f, Plain, ty)"

text \<open>The C type behind a width suffix: \<^verbatim>\<open>8\<close> is \<^verbatim>\<open>char\<close>, \<^verbatim>\<open>16\<close> \<^verbatim>\<open>short\<close>,
  \<^verbatim>\<open>32\<close> \<^verbatim>\<open>int\<close>, \<^verbatim>\<open>64\<close> and \<^verbatim>\<open>ptr\<close> \<^verbatim>\<open>long\<close>.\<close>

fun ctype :: "tysfx \<Rightarrow> tysfx" where
  "ctype T_8 = T_char"
| "ctype T_16 = T_short"
| "ctype T_32 = T_int"
| "ctype T_64 = T_long"
| "ctype T_ptr = T_long"
| "ctype ty = ty"

section \<open>The digest function\<close>

text \<open>
  \<^verbatim>\<open>SHA1_Digest(data, len, digest)\<close> in \<^verbatim>\<open>netdedup/src/server/sha.c\<close> declares a
  local \<^verbatim>\<open>SHA_CTX sha\<close> and calls \<^verbatim>\<open>SHA1_Init\<close>, \<^verbatim>\<open>SHA1_Update\<close> and
  \<^verbatim>\<open>SHA1_Final\<close> on it. Memory is an array of bytes indexed by address; \<^verbatim>\<open>size_t\<close>
  is 64 bits wide.
\<close>

type_synonym byte = "8 word"
type_synonym bytes_mem = "addr \<Rightarrow> byte"
type_synonym size_t = "64 word"

definition read_bytes :: "bytes_mem \<Rightarrow> addr \<Rightarrow> nat \<Rightarrow> byte list" where
  "read_bytes m p n = map (\<lambda>i. m (p + i)) [0..<n]"

definition write_bytes :: "bytes_mem \<Rightarrow> addr \<Rightarrow> byte list \<Rightarrow> bytes_mem" where
  "write_bytes m p bs = (\<lambda>a. if p \<le> a \<and> a < p + length bs then bs ! (a - p) else m a)"

subsection \<open>The hashing library\<close>

text \<open>
  Modelled from the spec: the functions \<^verbatim>\<open>SHA1_Init\<close>, \<^verbatim>\<open>SHA1_Update\<close>,
  \<^verbatim>\<open>SHA1_Final\<close> and the type \<^verbatim>\<open>SHA_CTX\<close> of \<^verbatim>\<open>openssl/sha.h\<close> are not among the
  sources. The spec describes them as the \<^emph>\<open>init\<close>, \<^emph>\<open>update\<close> and \<^emph>\<open>finalize\<close>
  primitives of the underlying hash construction, producing a 160-bit digest; the
  construction is SHA-1 as the Secure Hash Standard defines it: five 32-bit chaining
  words, 64-byte blocks read as big-endian words, eighty rounds per block, the message
  closed by the byte \<^verbatim>\<open>0x80\<close>, zero bytes and its length in bits as a 64-bit
  big-endian number.
\<close>

record SHA_CTX =
  h0 :: "32 word"
  h1 :: "32 word"
  h2 :: "32 word"
  h3 :: "32 word"
  h4 :: "32 word"
  Nl :: "32 word" \<comment> \<open>low half of the number of bits absorbed\<close>
  Nh :: "32 word" \<comment> \<open>high half\<close>
  data :: "byte list" \<comment> \<open>the bytes of the block not yet complete\<close>

definition ROTATE :: "nat \<Rightarrow> 32 word \<Rightarrow> 32 word" where
  "ROTATE n a = push_bit n a OR drop_bit (32 - n) a"

definition be32 :: "32 word \<Rightarrow> byte list" where
  "be32 w = [ucast (drop_bit 24 w), ucast (drop_bit 16 w), ucast (drop_bit 8 w), ucast w]"

fun words_of :: "byte list \<Rightarrow> 32 word list" where
  "words_of (b0 # b1 # b2 # b3 # bs) =
     (push_bit 24 (ucast b0) OR push_bit 16 (ucast b1) OR push_bit 8 (ucast b2) OR ucast b3)
       # words_of bs"
| "words_of _ = []"

definition sha1_f :: "nat \<Rightarrow> 32 word \<Rightarrow> 32 word \<Rightarrow> 32 word \<Rightarrow> 32 word" where
  "sha1_f t b c d =
     (if t < 20 then (b AND c) OR (NOT b AND d)
      else if t < 40 then b XOR c XOR d
      else if t < 60 then (b AND c) OR (b AND d) OR (c AND d)
      else b XOR c XOR d)"

definition sha1_K :: "nat \<Rightarrow> 32 word" where
  "sha1_K t =
     (if t < 20 then 0x5a827999
      else if t < 40 then 0x6ed9eba1
      else if t < 60 then 0x8f1bbcdc
      else 0xca62c1d6)"

text \<open>
  One round at step \<open>t\<close>. The message schedule is kept as a window of sixteen words
  whose head is \<open>W\<^sub>t\<close>; the word that enters the window is
  \<open>W\<^sub>t\<^sub>+\<^sub>1\<^sub>6 = ROTATE 1 (W\<^sub>t\<^sub>+\<^sub>1\<^sub>3 XOR W\<^sub>t\<^sub>+\<^sub>8 XOR W\<^sub>t\<^sub>+\<^sub>2 XOR W\<^sub>t)\<close>.
\<close>

type_synonym sha1_vars = "32 word \<times> 32 word \<times> 32 word \<times> 32 word \<times> 32 word"

fun sha1_round :: "nat \<Rightarrow> sha1_vars \<times> 32 word list \<Rightarrow> sha1_vars \<times> 32 word list" where
  "sha1_round t ((a, b, c, d, e), w) =
     ((ROTATE 5 a + sha1_f t b c d + e + sha1_K t + w ! 0, a, ROTATE 30 b, c, d),
      tl w @ [ROTATE 1 (w ! 13 XOR w ! 8 XOR w ! 2 XOR w ! 0)])"

fun sha1_rounds :: "nat \<Rightarrow> nat \<Rightarrow> sha1_vars \<times> 32 word list \<Rightarrow> sha1_vars \<times> 32 word list" where
  "sha1_rounds 0 t s = s"
| "sha1_rounds (Suc n) t s = sha1_rounds n (Suc t) (sha1_round t s)"

definition sha1_block_data_order :: "SHA_CTX \<Rightarrow> byte list \<Rightarrow> SHA_CTX" where
  "sha1_block_data_order c block =
     (let ((a, b, c', d, e), w) =
            sha1_rounds 80 0 ((h0 c, h1 c, h2 c, h3 c, h4 c), words_of block)
      in c\<lparr>h0 := h0 c + a, h1 := h1 c + b, h2 := h2 c + c', h3 := h3 c + d, h4 := h4 c + e\<rparr>)"

function absorb :: "SHA_CTX \<Rightarrow> byte list \<Rightarrow> SHA_CTX" where
  "absorb c bs =
     (if length bs < 64 then c\<lparr>data := bs\<rparr>
      else absorb (sha1_block_data_order c (take 64 bs)) (drop 64 bs))"
  by pat_completeness auto
termination
  by (relation "measure (\<lambda>(c, bs). length bs)") auto

declare absorb.simps [simp del]

definition SHA1_Init :: "SHA_CTX \<Rightarrow> SHA_CTX" where
  "SHA1_Init c =
     \<lparr>h0 = 0x67452301, h1 = 0xefcdab89, h2 = 0x98badcfe, h3 = 0x10325476, h4 = 0xc3d2e1f0,
      Nl = 0, Nh = 0, data = []\<rparr>"

definition SHA1_Update :: "SHA_CTX \<Rightarrow> bytes_mem \<Rightarrow> addr \<Rightarrow> size_t \<Rightarrow> SHA_CTX" where
  "SHA1_Update c m p len =
     (let l = Nl c + ucast (push_bit 3 len);
          nh = Nh c + (if l < Nl c then 1 else 0) + ucast (drop_bit 29 len)
      in absorb (c\<lparr>Nl := l, Nh := nh\<rparr>) (data c @ read_bytes m p (unat len)))"

definition sha1_padding :: "SHA_CTX \<Rightarrow> byte list" where
  "sha1_padding c =
     (let n = length (data c)
      in 0x80 # replicate (if n < 56 then 55 - n else 119 - n) 0 @ be32 (Nh c) @ be32 (Nl c))"

definition HASH_MAKE_STRING :: "SHA_CTX \<Rightarrow> byte list" where
  "HASH_MAKE_STRING c = be32 (h0 c) @ be32 (h1 c) @ be32 (h2 c) @ be32 (h3 c) @ be32 (h4 c)"

definition SHA1_Final :: "addr \<Rightarrow> SHA_CTX \<Rightarrow> bytes_mem \<Rightarrow> bytes_mem \<times> SHA_CTX" where
  "SHA1_Final md c m =
     (let c' = absorb c (data c @ sha1_padding c)
      in (write_bytes m md (HASH_MAKE_STRING c'), c'))"

subsection \<open>The wrapper\<close>

text \<open>
  The local \<^verbatim>\<open>sha\<close> is not initialised by its declaration: it holds whatever the
  stack held, which is the parameter \<open>sha\<close> here. The function returns nothing; its
  effect is the memory after the call.
\<close>

definition SHA1_Digest :: "addr \<Rightarrow> size_t \<Rightarrow> addr \<Rightarrow> SHA_CTX \<Rightarrow> bytes_mem \<Rightarrow> bytes_mem" where
  "SHA1_Digest data_p len digest sha m =
     (let sha1 = SHA1_Init sha;
          sha2 = SHA1_Update sha1 m data_p len;
          (m', sha3) = SHA1_Final digest sha2 m
      in m')"

subsection \<open>Concrete inputs\<close>

text \<open>The heap whose every word is zero, for evaluating calls on concrete inputs.\<close>

definition zero_heap :: heap where
  "zero_heap = \<lparr>h8 = \<lambda>a. 0, h16 = \<lambda>a. 0, h32 = \<lambda>a. 0, h64 = \<lambda>a. 0\<rparr>"

text \<open>
  Two byte memories that hold the bytes \<^verbatim>\<open>abc\<close>, at address 0 and at address 7, and
  differ everywhere else; and a context as an earlier computation may have left it on
  the stack.
\<close>

definition abc_mem :: bytes_mem where
  "abc_mem = (\<lambda>a. 0)(0 := 0x61, 1 := 0x62, 2 := 0x63, 3 := 0x64)"

definition abc_mem' :: bytes_mem where
  "abc_mem' = (\<lambda>a. 0xff)(7 := 0x61, 8 := 0x62, 9 := 0x63)"

definition stale_ctx :: SHA_CTX where
  "stale_ctx = \<lparr>h0 = 1, h1 = 2, h2 = 3, h3 = 4, h4 = 5, Nl = 6, Nh = 7, data = [8]\<rparr>"

section \<open>Properties of the atomic primitives\<close>

subsection \<open>Auxiliary facts\<close>

lemma not_promoted_char: "ucast (NOT (ucast (v :: u_char) :: c_int)) = (NOT v :: u_char)"
  by (rule bit_word_eqI) (auto simp add: bit_simps)

lemma not_promoted_short: "ucast (NOT (ucast (v :: u_short) :: c_int)) = (NOT v :: u_short)"
  by (rule bit_word_eqI) (auto simp add: bit_simps)

lemma atomic_op_char:
  "atomic_set_char p v h = h\<lparr>h8 := (h8 h)(p := h8 h p OR v)\<rparr>"
  "atomic_clear_char p v h = h\<lparr>h8 := (h8 h)(p := h8 h p AND NOT v)\<rparr>"
  "atomic_add_char p v h = h\<lparr>h8 := (h8 h)(p := h8 h p + v)\<rparr>"
  "atomic_subtract_char p v h = h\<lparr>h8 := (h8 h)(p := h8 h p - v)\<rparr>"
  by (simp_all add: atomic_set_char_def atomic_clear_char_def atomic_add_char_def
      atomic_subtract_char_def atomic_fetch_or_def atomic_fetch_and_def atomic_fetch_add_def
      atomic_fetch_sub_def not_promoted_char)

lemma atomic_op_short:
  "atomic_set_short p v h = h\<lparr>h16 := (h16 h)(p := h16 h p OR v)\<rparr>"
  "atomic_clear_short p v h = h\<lparr>h16 := (h16 h)(p := h16 h p AND NOT v)\<rparr>"
  "atomic_add_short p v h = h\<lparr>h16 := (h16 h)(p := h16 h p + v)\<rparr>"
  "atomic_subtract_short p v h = h\<lparr>h16 := (h16 h)(p := h16 h p - v)\<rparr>"
  by (simp_all add: atomic_set_short_def atomic_clear_short_def atomic_add_short_def
      atomic_subtract_short_def atomic_fetch_or_def atomic_fetch_and_def atomic_fetch_add_def
      atomic_fetch_sub_def not_promoted_short)

lemma atomic_op_int:
  "atomic_set_int p v h = h\<lparr>h32 := (h32 h)(p := h32 h p OR v)\<rparr>"
  "atomic_clear_int p v h = h\<lparr>h32 := (h32 h)(p := h32 h p AND NOT v)\<rparr>"
  "atomic_add_int p v h = h\<lparr>h32 := (h32 h)(p := h32 h p + v)\<rparr>"
  "atomic_subtract_int p v h = h\<lparr>h32 := (h32 h)(p := h32 h p - v)\<rparr>"
  by (simp_all add: atomic_set_int_def atomic_clear_int_def atomic_add_int_def
      atomic_subtract_int_def atomic_fetch_or_def atomic_fetch_and_def atomic_fetch_add_def
      atomic_fetch_sub_def)

lemma atomic_op_long:
  "atomic_set_long p v h = h\<lparr>h64 := (h64 h)(p := h64 h p OR v)\<rparr>"
  "atomic_clear_long p v h = h\<lparr>h64 := (h64 h)(p := h64 h p AND NOT v)\<rparr>"
  "atomic_add_long p v h = h\<lparr>h64 := (h64 h)(p := h64 h p + v)\<rparr>"
  "atomic_subtract_long p v h = h\<lparr>h64 := (h64 h)(p := h64 h p - v)\<rparr>"
  by (simp_all add: atomic_set_long_def atomic_clear_long_def atomic_add_long_def
      atomic_subtract_long_def atomic_fetch_or_def atomic_fetch_and_def atomic_fetch_add_def
      atomic_fetch_sub_def)

lemma word_add_mod: "unat (x + v :: 'a::len word) = (unat x + unat v) mod 2 ^ LENGTH('a)"
  by (simp add: unat_word_ariths)

lemma word_sub_mod: "uint (x - v :: 'a::len word) = (uint x - uint v) mod 2 ^ LENGTH('a)"
  by (simp add: uint_word_ariths)

lemma cmpset_int_eq:
  "atomic_cmpset_int dst exp src h =
     (if h32 h dst = exp then (1, h\<lparr>h32 := (h32 h)(dst := src)\<rparr>) else (0, h))"
  by (simp add: atomic_cmpset_int_def atomic_cmpset_int_vars_def cmpset_body_def
      atomic_compare_exchange_n_def)

lemma cmpset_long_eq:
  "atomic_cmpset_long dst exp src h =
     (if h64 h dst = exp then (1, h\<lparr>h64 := (h64 h)(dst := src)\<rparr>) else (0, h))"
  by (simp add: atomic_cmpset_long_def atomic_cmpset_long_vars_def cmpset_body_def
      atomic_compare_exchange_n_def)

text \<open>
  Claim C1. For every current value, expected value and new value,
  \<^verbatim>\<open>atomic_cmpset_int\<close> and \<^verbatim>\<open>atomic_cmpset_long\<close> replace \<^verbatim>\<open>*dst\<close> by \<^verbatim>\<open>src\<close>
  exactly when \<^verbatim>\<open>*dst\<close> equals \<^verbatim>\<open>exp\<close> at the call, return non-zero exactly in
  that case, and leave the whole heap as it was when they return zero.
\<close>

theorem compare_and_swap_contract:
  "atomic_cmpset_int dst exp src h =
     (if h32 h dst = exp then (1, h\<lparr>h32 := (h32 h)(dst := src)\<rparr>) else (0, h))
   \<and> (fst (atomic_cmpset_int dst exp src h) \<noteq> 0) = (h32 h dst = exp)
   \<and> atomic_cmpset_long dst exp' src' h =
     (if h64 h dst = exp' then (1, h\<lparr>h64 := (h64 h)(dst := src')\<rparr>) else (0, h))
   \<and> (fst (atomic_cmpset_long dst exp' src' h) \<noteq> 0) = (h64 h dst = exp')"
  by (simp add: cmpset_int_eq cmpset_long_eq)

text \<open>
  Claim C2. At each of the four widths, \<^verbatim>\<open>set\<close> replaces \<^verbatim>\<open>*p\<close> by
  \<^verbatim>\<open>*p | v\<close>, \<^verbatim>\<open>clear\<close> by \<^verbatim>\<open>*p & ~v\<close> with the complement taken at the
  width of the word, \<^verbatim>\<open>add\<close> by \<^verbatim>\<open>*p + v\<close> and \<^verbatim>\<open>subtract\<close> by \<^verbatim>\<open>*p - v\<close>,
  both modulo \<open>2\<^sup>w\<close>. The functions return nothing: their value is the heap after
  the call.
\<close>

theorem set_clear_add_subtract_contract:
  "atomic_set_char p v8 h = h\<lparr>h8 := (h8 h)(p := h8 h p OR v8)\<rparr>
   \<and> atomic_clear_char p v8 h = h\<lparr>h8 := (h8 h)(p := h8 h p AND NOT v8)\<rparr>
   \<and> atomic_add_char p v8 h = h\<lparr>h8 := (h8 h)(p := h8 h p + v8)\<rparr>
   \<and> atomic_subtract_char p v8 h = h\<lparr>h8 := (h8 h)(p := h8 h p - v8)\<rparr>
   \<and> atomic_set_short p v16 h = h\<lparr>h16 := (h16 h)(p := h16 h p OR v16)\<rparr>
   \<and> atomic_clear_short p v16 h = h\<lparr>h16 := (h16 h)(p := h16 h p AND NOT v16)\<rparr>
   \<and> atomic_add_short p v16 h = h\<lparr>h16 := (h16 h)(p := h16 h p + v16)\<rparr>
   \<and> atomic_subtract_short p v16 h = h\<lparr>h16 := (h16 h)(p := h16 h p - v16)\<rparr>
   \<and> atomic_set_int p v32 h = h\<lparr>h32 := (h32 h)(p := h32 h p OR v32)\<rparr>
   \<and> atomic_clear_int p v32 h = h\<lparr>h32 := (h32 h)(p := h32 h p AND NOT v32)\<rparr>
   \<and> atomic_add_int p v32 h = h\<lparr>h32 := (h32 h)(p := h32 h p + v32)\<rparr>
   \<and> atomic_subtract_int p v32 h = h\<lparr>h32 := (h32 h)(p := h32 h p - v32)\<rparr>
   \<and> atomic_set_long p v64 h = h\<lparr>h64 := (h64 h)(p := h64 h p OR v64)\<rparr>
   \<and> atomic_clear_long p v64 h = h\<lparr>h64 := (h64 h)(p := h64 h p AND NOT v64)\<rparr>
   \<and> atomic_add_long p v64 h = h\<lparr>h64 := (h64 h)(p := h64 h p + v64)\<rparr>
   \<and> atomic_subtract_long p v64 h = h\<lparr>h64 := (h64 h)(p := h64 h p - v64)\<rparr>
   \<and> unat (h8 h p + v8) = (unat (h8 h p) + unat v8) mod 2 ^ 8
   \<and> unat (h16 h p + v16) = (unat (h16 h p) + unat v16) mod 2 ^ 16
   \<and> unat (h32 h p + v32) = (unat (h32 h p) + unat v32) mod 2 ^ 32
   \<and> unat (h64 h p + v64) = (unat (h64 h p) + unat v64) mod 2 ^ 64
   \<and> uint (h8 h p - v8) = (uint (h8 h p) - uint v8) mod 2 ^ 8
   \<and> uint (h16 h p - v16) = (uint (h16 h p) - uint v16) mod 2 ^ 16
   \<and> uint (h32 h p - v32) = (uint (h32 h p) - uint v32) mod 2 ^ 32
   \<and> uint (h64 h p - v64) = (uint (h64 h p) - uint v64) mod 2 ^ 64"
  unfolding atomic_op_char atomic_op_short atomic_op_int atomic_op_long
  by (simp only: word_add_mod word_sub_mod len_bit0 len_num1 simp_thms) simp

text \<open>
  Claim C3. \<^verbatim>\<open>atomic_fetchadd_int\<close> replaces \<^verbatim>\<open>*p\<close> by \<^verbatim>\<open>*p + v\<close> modulo
  \<open>2\<^sup>3\<^sup>2\<close> and returns the value \<^verbatim>\<open>*p\<close> had before.
\<close>

theorem fetchadd_contract:
  "atomic_fetchadd_int p v h = (h32 h p, h\<lparr>h32 := (h32 h)(p := h32 h p + v)\<rparr>)
   \<and> unat (h32 h p + v) = (unat (h32 h p) + unat v) mod 2 ^ 32"
  by (simp add: atomic_fetchadd_int_def atomic_fetch_add_def unat_word_ariths)

text \<open>
  Claim C4. For every 32-bit word \<^verbatim>\<open>*p\<close> and every signed operand \<^verbatim>\<open>v\<close>, the most
  negative one included, \<^verbatim>\<open>atomic_fetchsubtract_int\<close> replaces \<^verbatim>\<open>*p\<close> by
  \<^verbatim>\<open>*p - v\<close> modulo \<open>2\<^sup>3\<^sup>2\<close>, with \<^verbatim>\<open>v\<close> read as a signed number, and returns the
  value \<^verbatim>\<open>*p\<close> had before. At \<^verbatim>\<open>v = INT_MIN\<close> that is \<^verbatim>\<open>*p + 0x80000000\<close>.
\<close>

theorem fetchsubtract_contract:
  "atomic_fetchsubtract_int p v h = (h32 h p, h\<lparr>h32 := (h32 h)(p := h32 h p - v)\<rparr>)
   \<and> uint (h32 h p - v) = (uint (h32 h p) - sint v) mod 2 ^ 32
   \<and> sint INT_MIN = - (2 ^ 31)
   \<and> atomic_fetchsubtract_int p INT_MIN h =
       (h32 h p, h\<lparr>h32 := (h32 h)(p := h32 h p + 0x80000000)\<rparr>)"
proof -
  have e: "atomic_fetchsubtract_int p w h = (h32 h p, h\<lparr>h32 := (h32 h)(p := h32 h p - w)\<rparr>)"
    for w
    by (simp add: atomic_fetchsubtract_int_def atomic_fetch_add_def)
  have "uint v = sint v mod 2 ^ 32"
    using uint_sint [of v] by (simp add: take_bit_eq_mod)
  then have m: "uint (h32 h p - v) = (uint (h32 h p) - sint v) mod 2 ^ 32"
    by (simp add: uint_word_ariths mod_diff_right_eq)
  have i: "h32 h p - INT_MIN = h32 h p + 0x80000000"
    by (simp add: INT_MIN_def)
  show ?thesis
    using m by (simp add: e i) (simp add: INT_MIN_def)
qed

text \<open>
  Claim C5. \<^verbatim>\<open>atomic_readandclear_int\<close> and \<^verbatim>\<open>atomic_readandclear_long\<close> return
  the value \<^verbatim>\<open>*p\<close> had before the call, and \<^verbatim>\<open>*p\<close> is zero after it.
\<close>

theorem readandclear_contract:
  "atomic_readandclear_int p h = (h32 h p, h\<lparr>h32 := (h32 h)(p := 0)\<rparr>)
   \<and> h32 (snd (atomic_readandclear_int p h)) p = 0
   \<and> atomic_readandclear_long p h = (h64 h p, h\<lparr>h64 := (h64 h)(p := 0)\<rparr>)
   \<and> h64 (snd (atomic_readandclear_long p h)) p = 0"
  by (simp add: atomic_readandclear_int_def atomic_readandclear_long_def atomic_exchange_n_def)

text \<open>
  Claim C9. Compare-and-swap never changes the expected value its caller passed:
  when the call ends the parameter \<^verbatim>\<open>exp\<close> still holds it, whether the swap took
  place or not. What the built-in writes back on failure, the current \<^verbatim>\<open>*dst\<close>,
  ends in the local \<^verbatim>\<open>expected\<close>, and the caller receives the \<^verbatim>\<open>int\<close> and the
  heap only.
\<close>

theorem cmpset_keeps_callers_exp:
  "var_exp (snd (fst (atomic_cmpset_int_vars dst exp src h))) = exp
   \<and> var_expected (snd (fst (atomic_cmpset_int_vars dst exp src h))) = h32 h dst
   \<and> atomic_cmpset_int dst exp src h =
       (fst (fst (atomic_cmpset_int_vars dst exp src h)), snd (atomic_cmpset_int_vars dst exp src h))
   \<and> var_exp (snd (fst (atomic_cmpset_long_vars dst exp' src' h))) = exp'
   \<and> var_expected (snd (fst (atomic_cmpset_long_vars dst exp' src' h))) = h64 h dst
   \<and> atomic_cmpset_long dst exp' src' h =
       (fst (fst (atomic_cmpset_long_vars dst exp' src' h)), snd (atomic_cmpset_long_vars dst exp' src' h))"
  by (simp add: atomic_cmpset_int_def atomic_cmpset_int_vars_def atomic_cmpset_long_def
      atomic_cmpset_long_vars_def cmpset_body_def atomic_compare_exchange_n_def)

section \<open>Properties of the names\<close>

lemma ident_name_example:
  "ident_name (Op_cmpset, Rel, T_long) = ''atomic_cmpset_rel_long''"
  by simp

lemma expand_numeral:
  "expand (numeral k) x =
     (case macro_def x of None \<Rightarrow> x | Some y \<Rightarrow> expand (pred_numeral k) y)"
  by (simp add: numeral_eq_Suc)

lemma expand_stable: "macro_def x = None \<Longrightarrow> expand n x = x"
  by (cases n) simp_all

lemma preprocess_reaches_function_or_unknown: "macro_def (preprocess x) = None"
  by (cases x rule: prod_cases3; cases "fst x"; cases "fst (snd x)"; cases "snd (snd x)";
      simp add: preprocess_def expand_numeral macro_def_def)

lemma preprocess_idem: "expand n (preprocess x) = preprocess x"
  by (simp add: expand_stable preprocess_reaches_function_or_unknown)

text \<open>
  Claim C6 says that every operation of the interface exists at all four widths.
  The header has no compare-and-swap on 8-bit words under any of its three names, and
  a call of \<^verbatim>\<open>atomic_cmpset_8\<close> names nothing that is declared.
\<close>

theorem width_names_counterexample:
  "\<not> declared (Op_cmpset, Plain, T_8) \<and> \<not> declared (Op_cmpset, Acq, T_8)
   \<and> \<not> declared (Op_cmpset, Rel, T_8)
   \<and> call (Op_cmpset, Plain, T_8) [V_ptr 0, V_char 0, V_char 1] zero_heap = Inl Undeclared"
  by (simp add: declared_def call_def preprocess_def expand_numeral macro_def_def function_defs_def)

text \<open>
  Claim C6, amended. An operation has an entry point at a type suffix exactly in
  these cases: set, clear, add, subtract, load-acquire and store-release at every
  suffix, hence at all of 8, 16, 32 and 64 bits; compare-and-swap and read-and-clear at
  32 and 64 bits (and \<^verbatim>\<open>int\<close>, \<^verbatim>\<open>long\<close>, \<^verbatim>\<open>ptr\<close>); fetch-and-add and
  fetch-and-subtract at 32 bits (and \<^verbatim>\<open>int\<close>) only. Where an entry point exists, its
  name expands to the function of the same operation at the C type of that width.
\<close>

theorem entry_points_by_width:
  "(declared (entry f ty) \<longleftrightarrow>
      f \<in> {Op_set, Op_clear, Op_add, Op_subtract, Op_load, Op_store}
      \<or> f \<in> {Op_cmpset, Op_readandclear} \<and> ty \<in> {T_int, T_long, T_32, T_64, T_ptr}
      \<or> f \<in> {Op_fetchadd, Op_fetchsubtract} \<and> ty \<in> {T_int, T_32})
   \<and> (declared (entry f ty) \<longrightarrow> preprocess (entry f ty) = entry f (ctype ty))"
  by (cases f; cases ty;
      simp add: declared_def preprocess_def expand_numeral macro_def_def function_defs_def)

text \<open>The statement at \<^verbatim>\<open>atomic_cmpset_64\<close> and at \<^verbatim>\<open>atomic_fetchadd_64\<close>.\<close>

theorem entry_points_by_width_witness:
  "declared (entry Op_cmpset T_64) \<and> preprocess (entry Op_cmpset T_64) = (Op_cmpset, Plain, T_long)
   \<and> \<not> declared (entry Op_fetchadd T_64)"
  using entry_points_by_width [of Op_cmpset T_64] entry_points_by_width [of Op_fetchadd T_64]
  by simp

text \<open>
  Calls that convert their argument: an \<^verbatim>\<open>unsigned int\<close> passed to
  \<^verbatim>\<open>atomic_set_char\<close> is cut to its low byte, and \<^verbatim>\<open>atomic_fetchsubtract_32\<close> at
  the most negative \<^verbatim>\<open>int\<close> returns the old value and adds \<^verbatim>\<open>0x80000000\<close>.
\<close>

lemma call_converts_argument:
  "call (Op_set, Plain, T_char) [V_ptr 0, V_int 0x101] zero_heap =
     Inr (None, zero_heap\<lparr>h8 := (\<lambda>a. 0)(0 := 1)\<rparr>)"
proof -
  have low_byte: "(257 :: u_char) = 1"
    by simp
  show ?thesis
    by (simp add: call_def preprocess_def expand_numeral macro_def_def function_defs_def
        void_char_def void_func_def atomic_op_char zero_heap_def low_byte)
qed

lemma call_fetchsubtract_int_min:
  "call (Op_fetchsubtract, Plain, T_32) [V_ptr 0, V_sint INT_MIN] zero_heap =
     Inr (Some (V_int 0), zero_heap\<lparr>h32 := (\<lambda>a. 0)(0 := 0x80000000)\<rparr>)"
  by (simp add: call_def preprocess_def expand_numeral macro_def_def function_defs_def
      fetchsubtract_int_func_def fetch_func_def atomic_fetchsubtract_int_def atomic_fetch_add_def
      zero_heap_def INT_MIN_def)

lemma suffixed_name_expands_to_plain:
  "ord \<noteq> Plain \<Longrightarrow> f \<noteq> Op_load \<Longrightarrow> f \<noteq> Op_store \<Longrightarrow> declared (f, ord, ty) \<Longrightarrow>
     preprocess (f, ord, ty) = preprocess (f, Plain, ty) \<and> declared (f, Plain, ty)"
  by (cases f; cases ord; cases ty;
      simp add: declared_def preprocess_def expand_numeral macro_def_def function_defs_def)

text \<open>
  Claim C8. Every declared name with an \<^verbatim>\<open>_acq\<close> or \<^verbatim>\<open>_rel\<close> suffix, other than
  the load and store functions themselves (which have no unsuffixed form), has a
  declared unsuffixed counterpart, and a call through the suffixed name gives the same
  result and the same heap as a call through the unsuffixed one, whatever the
  arguments and the heap.
\<close>

theorem ordering_aliases_same_function:
  "ord \<noteq> Plain \<Longrightarrow> f \<noteq> Op_load \<Longrightarrow> f \<noteq> Op_store \<Longrightarrow> declared (f, ord, ty) \<Longrightarrow>
     declared (f, Plain, ty) \<and> call (f, ord, ty) args h = call (f, Plain, ty) args h"
  using suffixed_name_expands_to_plain [of ord f ty] by (simp add: call_def)

text \<open>The statement at \<^verbatim>\<open>atomic_cmpset_rel_long\<close>, on a word that holds the expected 0.\<close>

theorem ordering_aliases_same_function_witness:
  "declared (Op_cmpset, Rel, T_long)
   \<and> call (Op_cmpset, Rel, T_long) [V_ptr 0, V_long 0, V_long 5] zero_heap =
       call (Op_cmpset, Plain, T_long) [V_ptr 0, V_long 0, V_long 5] zero_heap
   \<and> call (Op_cmpset, Rel, T_long) [V_ptr 0, V_long 0, V_long 5] zero_heap =
       Inr (Some (V_sint 1), zero_heap\<lparr>h64 := (\<lambda>a. 0)(0 := 5)\<rparr>)"
proof -
  have d: "declared (Op_cmpset, Rel, T_long)"
    by (simp add: declared_def preprocess_def expand_numeral macro_def_def function_defs_def)
  have c: "call (Op_cmpset, Plain, T_long) [V_ptr 0, V_long 0, V_long 5] zero_heap =
       Inr (Some (V_sint 1), zero_heap\<lparr>h64 := (\<lambda>a. 0)(0 := 5)\<rparr>)"
    by (simp add: call_def preprocess_def expand_numeral macro_def_def function_defs_def
        cmpset_long_func_def cmpset_func_def cmpset_long_eq zero_heap_def)
  from ordering_aliases_same_function [of Rel Op_cmpset T_long "[V_ptr 0, V_long 0, V_long 5]" zero_heap] d c
  show ?thesis by simp
qed

section \<open>Properties of the digest function\<close>

subsection \<open>The compression of the empty message, round by round\<close>

lemma rounds_numeral:
  "sha1_rounds (numeral k) t s = sha1_rounds (pred_numeral k) (Suc t) (sha1_round t s)"
  by (simp add: numeral_eq_Suc)

lemma rounds_Suc_0:
  "sha1_rounds (Suc 0) t s = sha1_round t s"
  by simp

lemma take_bit_32_word: "take_bit 32 (x :: 32 word) = x"
  by (simp add: take_bit_word_eq_self)

lemma sha1_round_reduced:
  "sha1_round t ((a, b, c, d, e), w) =
     ((take_bit 32 (ROTATE 5 a + sha1_f t b c d + e + sha1_K t + w ! 0), a,
       take_bit 32 (ROTATE 30 b), c, d),
      tl w @ [take_bit 32 (ROTATE 1 (w ! 13 XOR w ! 8 XOR w ! 2 XOR w ! 0))])"
  by (simp add: take_bit_32_word)

lemma empty_message_rounds:
  "fst (sha1_rounds 80 0 ((0x67452301, 0xefcdab89, 0x98badcfe, 0x10325476, 0xc3d2e1f0),
     [0x80000000, 0, 0, 0, 0, 0, 0, 0, 0, 0, 0, 0, 0, 0, 0, 0])) =
   (0x72f480ed, 0x6e9d9f84, 0x999ae2f1, 0x852dc41a, 0xec052519)"
  by (simp add: rounds_numeral rounds_Suc_0 sha1_round_reduced ROTATE_def sha1_f_def sha1_K_def
        del: sha1_round.simps sha1_rounds.simps)

lemma replicate_numeral_Cons:
  "replicate (numeral k) x = x # replicate (pred_numeral k) x"
  by (simp add: numeral_eq_Suc)

lemma empty_message_block:
  "words_of (0x80 # replicate 55 0 @ be32 0 @ be32 0) =
     [0x80000000, 0, 0, 0, 0, 0, 0, 0, 0, 0, 0, 0, 0, 0, 0, 0]"
  by (simp add: be32_def replicate_numeral_Cons)

lemma absorb_short: "length bs < 64 \<Longrightarrow> absorb c bs = c\<lparr>data := bs\<rparr>"
  by (subst absorb.simps) simp

lemma absorb_one_block:
  "length bs = 64 \<Longrightarrow> absorb c bs = (sha1_block_data_order c bs)\<lparr>data := []\<rparr>"
  by (subst absorb.simps) (simp add: absorb_short)

lemma update_empty: "SHA1_Update (SHA1_Init sha) m p 0 = SHA1_Init sha"
  by (simp add: SHA1_Update_def SHA1_Init_def read_bytes_def absorb_short)

lemma padding_init: "sha1_padding (SHA1_Init sha) = 0x80 # replicate 55 0 @ be32 0 @ be32 0"
  by (simp add: sha1_padding_def SHA1_Init_def)

lemma empty_message_compression:
  "sha1_block_data_order (SHA1_Init sha) (0x80 # replicate 55 0 @ be32 0 @ be32 0) =
     \<lparr>h0 = 0xda39a3ee, h1 = 0x5e6b4b0d, h2 = 0x3255bfef, h3 = 0x95601890, h4 = 0xafd80709,
      Nl = 0, Nh = 0, data = []\<rparr>"
proof -
  obtain a b c d e w where r:
    "sha1_rounds 80 0 ((0x67452301, 0xefcdab89, 0x98badcfe, 0x10325476, 0xc3d2e1f0),
       [0x80000000, 0, 0, 0, 0, 0, 0, 0, 0, 0, 0, 0, 0, 0, 0, 0]) = ((a, b, c, d, e), w)"
    by (metis prod_cases5 surj_pair)
  with empty_message_rounds have v:
    "a = 0x72f480ed" "b = 0x6e9d9f84" "c = 0x999ae2f1" "d = 0x852dc41a" "e = 0xec052519"
    by simp_all
  show ?thesis
    unfolding sha1_block_data_order_def empty_message_block
    by (simp add: SHA1_Init_def r v del: sha1_rounds.simps)
qed

lemma final_empty:
  "snd (SHA1_Final md (SHA1_Init sha) m) =
     \<lparr>h0 = 0xda39a3ee, h1 = 0x5e6b4b0d, h2 = 0x3255bfef, h3 = 0x95601890, h4 = 0xafd80709,
      Nl = 0, Nh = 0, data = []\<rparr>"
proof -
  have len: "length (0x80 # replicate 55 (0::byte) @ be32 0 @ be32 0) = 64"
    by (simp add: be32_def)
  have d: "data (SHA1_Init sha) = []"
    by (simp add: SHA1_Init_def)
  show ?thesis
    by (simp add: SHA1_Final_def Let_def d padding_init absorb_one_block [OF len]
        empty_message_compression)
qed

lemma empty_message_digest:
  "HASH_MAKE_STRING (snd (SHA1_Final md (SHA1_Init sha) m)) =
     be32 0xda39a3ee @ be32 0x5e6b4b0d @ be32 0x3255bfef @ be32 0x95601890 @ be32 0xafd80709"
  unfolding final_empty by (simp add: HASH_MAKE_STRING_def)

lemma be32_first_word: "be32 0xda39a3ee = [0xda, 0x39, 0xa3, 0xee]"
  by (simp add: be32_def)

subsection \<open>What a call reads and writes\<close>

lemma length_HASH_MAKE_STRING: "length (HASH_MAKE_STRING c) = 20"
  by (simp add: HASH_MAKE_STRING_def be32_def)

lemma read_bytes_write_bytes: "read_bytes (write_bytes m p bs) p (length bs) = bs"
  by (rule nth_equalityI) (simp_all add: read_bytes_def write_bytes_def)

lemma read_bytes_nth: "read_bytes (\<lambda>a. bs ! a) 0 (length bs) = bs"
  by (simp add: read_bytes_def map_nth)

lemma length_read_bytes: "length (read_bytes m p n) = n"
  by (simp add: read_bytes_def)

lemma SHA1_Digest_effect:
  "SHA1_Digest data_p len digest sha m =
     write_bytes m digest
       (HASH_MAKE_STRING (snd (SHA1_Final digest (SHA1_Update (SHA1_Init sha) m data_p len) m)))"
  by (simp add: SHA1_Digest_def SHA1_Final_def Let_def)

lemma final_context_depends_on_bytes:
  assumes "read_bytes m1 d1 (unat len) = read_bytes m2 d2 (unat len)"
  shows "snd (SHA1_Final o1 (SHA1_Update (SHA1_Init s1) m1 d1 len) n1) =
         snd (SHA1_Final o2 (SHA1_Update (SHA1_Init s2) m2 d2 len) n2)"
proof -
  have "SHA1_Init s1 = SHA1_Init s2"
    by (simp add: SHA1_Init_def)
  with assms have "SHA1_Update (SHA1_Init s1) m1 d1 len = SHA1_Update (SHA1_Init s2) m2 d2 len"
    by (simp add: SHA1_Update_def)
  then show ?thesis
    by (simp add: SHA1_Final_def Let_def)
qed

text \<open>
  Claim C7. \<^verbatim>\<open>SHA1_Digest\<close> is a deterministic, stateless function of its input:
  there is one function \<open>F\<close> from byte strings to 20-byte strings such that every
  call, whatever the addresses, the rest of memory and the previous contents of the
  local context (all that earlier calls can have left behind), writes \<open>F\<close> of the
  \<^verbatim>\<open>len\<close> input bytes into the digest buffer and changes nothing else. On the empty
  input the digest is \<^verbatim>\<open>da39a3ee 5e6b4b0d 3255bfef 95601890 afd80709\<close>, the SHA-1
  digest of the empty string.
\<close>

theorem digest_is_function_of_input_bytes:
  "\<exists>F. (\<forall>bs. length (F bs) = 20)
     \<and> (\<forall>data_p len digest sha m.
           SHA1_Digest data_p len digest sha m =
             write_bytes m digest (F (read_bytes m data_p (unat len))))
     \<and> F [] = be32 0xda39a3ee @ be32 0x5e6b4b0d @ be32 0x3255bfef @ be32 0x95601890 @ be32 0xafd80709"
proof -
  define F where "F bs =
    HASH_MAKE_STRING (snd (SHA1_Final 0
      (SHA1_Update (SHA1_Init stale_ctx) (\<lambda>a. bs ! a) 0 (of_nat (length bs))) (\<lambda>a. 0)))"
    for bs :: "byte list"
  have len: "length (F bs) = 20" for bs
    by (simp add: F_def length_HASH_MAKE_STRING)
  have eff: "SHA1_Digest data_p len digest sha m =
      write_bytes m digest (F (read_bytes m data_p (unat len)))" for data_p len digest sha m
  proof -
    let ?bs = "read_bytes m data_p (unat len)"
    have l: "(of_nat (length ?bs) :: size_t) = len"
      by (simp add: length_read_bytes)
    have "read_bytes m data_p (unat len) = read_bytes (\<lambda>a. ?bs ! a) 0 (unat len)"
      using read_bytes_nth [of ?bs] by (simp add: length_read_bytes)
    then have "snd (SHA1_Final digest (SHA1_Update (SHA1_Init sha) m data_p len) m) =
       snd (SHA1_Final 0 (SHA1_Update (SHA1_Init stale_ctx) (\<lambda>a. ?bs ! a) 0 len) (\<lambda>a. 0))"
      by (rule final_context_depends_on_bytes)
    then show ?thesis
      unfolding SHA1_Digest_effect F_def l by simp
  qed
  have "F [] = be32 0xda39a3ee @ be32 0x5e6b4b0d @ be32 0x3255bfef @ be32 0x95601890 @ be32 0xafd80709"
    by (simp add: F_def update_empty empty_message_digest)
  with len eff show ?thesis
    by blast
qed

text \<open>
  Claim C10. The digest depends only on the first \<^verbatim>\<open>len\<close> bytes of the input
  buffer: two calls with the same \<^verbatim>\<open>len\<close> whose buffers hold the same \<^verbatim>\<open>len\<close>
  bytes produce the same 20 output bytes, whatever the two buffer addresses, the
  output addresses, the bytes beyond index \<^verbatim>\<open>len\<close> and the two contexts.
\<close>

theorem digest_depends_only_on_first_len_bytes:
  assumes "read_bytes m1 data1 (unat len) = read_bytes m2 data2 (unat len)"
  shows "read_bytes (SHA1_Digest data1 len out1 sha1 m1) out1 20 =
         read_bytes (SHA1_Digest data2 len out2 sha2 m2) out2 20"
proof -
  have "read_bytes (SHA1_Digest d len out s m) out 20 =
      HASH_MAKE_STRING (snd (SHA1_Final out (SHA1_Update (SHA1_Init s) m d len) m))"
    for d out s m
    unfolding SHA1_Digest_effect
    using read_bytes_write_bytes
      [of m out "HASH_MAKE_STRING (snd (SHA1_Final out (SHA1_Update (SHA1_Init s) m d len) m))"]
    by (simp add: length_HASH_MAKE_STRING)
  with final_context_depends_on_bytes [OF assms, of out1 sha1 m1 out2 sha2 m2] show ?thesis
    by simp
qed

text \<open>The statement for \<^verbatim>\<open>abc\<close> at two addresses, in memories that differ right
  after the three bytes.\<close>

theorem digest_depends_only_on_first_len_bytes_witness:
  "read_bytes abc_mem 0 (unat (3 :: size_t)) = read_bytes abc_mem' 7 (unat (3 :: size_t))
   \<and> abc_mem 3 \<noteq> abc_mem' 10
   \<and> read_bytes (SHA1_Digest 0 3 100 stale_ctx abc_mem) 100 20 =
       read_bytes (SHA1_Digest 7 3 200 (stale_ctx\<lparr>Nl := 5\<rparr>) abc_mem') 200 20"
proof -
  have u: "unat (3 :: size_t) = 3" by simp
  have up: "[0..<3] = [0, 1, 2]" by (simp add: upt_rec)
  have e: "read_bytes abc_mem 0 (unat (3 :: size_t)) = read_bytes abc_mem' 7 (unat (3 :: size_t))"
    unfolding u by (simp add: read_bytes_def abc_mem_def abc_mem'_def up)
  have n: "abc_mem 3 \<noteq> abc_mem' 10"
    by (simp add: abc_mem_def abc_mem'_def)
  from digest_depends_only_on_first_len_bytes [OF e] e n show ?thesis
    by blast
qed

end
